theory Spec2Isabelle
  imports Complex_Main "HOL-Library.AList"
begin

section \<open>Values exchanged by the relay\<close>

text \<open>
  The relay (\<^verbatim>\<open>rtmt.py\<close>) parses every text frame with \<^verbatim>\<open>json.loads\<close> and works on the
  resulting Python value. A parsed value is a \<open>json\<close>: a Python \<^verbatim>\<open>dict\<close> is an
  association list in insertion order, \<^verbatim>\<open>int\<close> and \<^verbatim>\<open>float\<close> are kept apart, and a
  float is carried as a real (the relay never computes with one).
\<close>

datatype json =
    JNull
  | JBool bool
  | JInt int
  | JFloat real
  | JStr string
  | JArr "json list"
  | JObj "(string \<times> json) list"

text \<open>The exceptions the message handlers can raise; a tool handler may raise anything.\<close>

datatype error = KeyError | TypeError | IndexError | JSONDecodeError | HandlerError string

fun bind_err :: "error + 'a \<Rightarrow> ('a \<Rightarrow> error + 'b) \<Rightarrow> error + 'b" where
  "bind_err (Inl e) f = Inl e"
| "bind_err (Inr v) f = f v"

text \<open>\<^verbatim>\<open>v[k]\<close> for a string \<open>k\<close>: only a dict can be subscripted by a string.\<close>

fun getitem :: "json \<Rightarrow> string \<Rightarrow> error + json" where
  "getitem (JObj kvs) k = (case map_of kvs k of None \<Rightarrow> Inl KeyError | Some v \<Rightarrow> Inr v)"
| "getitem _ k = Inl TypeError"

text \<open>
  \<^verbatim>\<open>v[k] = x\<close>: an existing key keeps its position, a new key goes to the end
  (which is what \<open>AList.update\<close> does).
\<close>

fun setitem :: "json \<Rightarrow> string \<Rightarrow> json \<Rightarrow> error + json" where
  "setitem (JObj kvs) k x = Inr (JObj (AList.update k x kvs))"
| "setitem _ k x = Inl TypeError"

text \<open>
  A value used as a dict key: lists and dicts are unhashable, and Python identifies
  \<^verbatim>\<open>True\<close> with 1, \<^verbatim>\<open>False\<close> with 0 and a float of integral value with that integer.
\<close>

fun dict_key :: "json \<Rightarrow> error + json" where
  "dict_key (JArr xs) = Inl TypeError"
| "dict_key (JObj kvs) = Inl TypeError"
| "dict_key (JBool b) = Inr (JInt (if b then 1 else 0))"
| "dict_key (JFloat r) = Inr (if of_int \<lfloor>r\<rfloor> = r then JInt \<lfloor>r\<rfloor> else JFloat r)"
| "dict_key v = Inr v"

text \<open>\<^verbatim>\<open>json.loads(v)\<close> on a parsed value: only a string can be parsed.\<close>

fun json_loads :: "(string \<Rightarrow> json option) \<Rightarrow> json \<Rightarrow> error + json" where
  "json_loads loads (JStr s) = (case loads s of None \<Rightarrow> Inl JSONDecodeError | Some v \<Rightarrow> Inr v)"
| "json_loads loads _ = Inl TypeError"

section \<open>Tools and the middle tier\<close>

datatype ToolResultDirection = TO_SERVER | TO_CLIENT

record ToolResult =
  "text" :: json
  destination :: ToolResultDirection

definition to_text :: "(json \<Rightarrow> string) \<Rightarrow> ToolResult \<Rightarrow> string" where
  "to_text dumps r =
     (case text r of JNull \<Rightarrow> [] | JStr s \<Rightarrow> s | _ \<Rightarrow> dumps (text r))"

text \<open>A handler is awaited to completion: it returns a result or raises.\<close>

record Tool =
  target :: "json \<Rightarrow> error + ToolResult"
  schema :: json

record RTToolCall =
  tool_call_id :: json
  previous_id :: json

text \<open>
  The fields of \<^verbatim>\<open>RTMiddleTier\<close> that message processing reads. \<open>tools\<close> is the
  registry in registration order, \<open>tools_pending\<close> is \<^verbatim>\<open>_tools_pending\<close>, keyed by
  \<open>dict_key\<close> of the call identifier.
\<close>

record RTMiddleTier =
  tools :: "(string \<times> Tool) list"
  system_message :: "string option"
  temperature :: "real option"
  max_tokens :: "int option"
  disable_audio :: "bool option"
  voice_choice :: "string option"
  tools_pending :: "(json \<times> RTToolCall) list"

text \<open>
  A text frame written to a socket: \<open>Text s\<close> is the string \<open>s\<close> as it was received,
  \<open>Json v\<close> is \<^verbatim>\<open>json.dumps(v)\<close> (what \<^verbatim>\<open>send_json(v)\<close> writes).
\<close>

datatype frame = Text string | Json json

text \<open>
  What one call of a handler leaves behind: the tracker, the objects passed to
  \<^verbatim>\<open>server_ws.send_json\<close> and \<^verbatim>\<open>client_ws.send_json\<close> in order, and the returned
  \<^verbatim>\<open>updated_message\<close> or the exception raised. Effects made before an exception stay.
\<close>

record reply =
  pending :: "(json \<times> RTToolCall) list"
  to_server :: "json list"
  to_client :: "json list"
  outcome :: "error + frame option"

definition quiet :: "RTMiddleTier \<Rightarrow> error + frame option \<Rightarrow> reply" where
  "quiet self r = \<lparr>pending = tools_pending self, to_server = [], to_client = [], outcome = r\<rparr>"

section \<open>Upstream to client: \<^verbatim>\<open>_process_message_to_client\<close>\<close>

text \<open>\<^verbatim>\<open>"item" in message and message["item"]["type"] == t\<close>, for a dict \<open>message\<close>.\<close>

definition item_has_type :: "(string \<times> json) list \<Rightarrow> string \<Rightarrow> error + bool" where
  "item_has_type message t =
     (case map_of message ''item'' of
        None \<Rightarrow> Inr False
      | Some item \<Rightarrow> bind_err (getitem item ''type'') (\<lambda>v. Inr (v = JStr t)))"

text \<open>The case \<^verbatim>\<open>"session.created"\<close>: the session object is patched in place.\<close>

definition voice_value :: "RTMiddleTier \<Rightarrow> json" where
  "voice_value self = (case voice_choice self of None \<Rightarrow> JNull | Some v \<Rightarrow> JStr v)"

definition hide_session :: "RTMiddleTier \<Rightarrow> json \<Rightarrow> error + json" where
  "hide_session self session =
     bind_err (setitem session ''instructions'' (JStr [])) (\<lambda>s1.
     bind_err (setitem s1 ''tools'' (JArr [])) (\<lambda>s2.
     bind_err (setitem s2 ''voice'' (voice_value self)) (\<lambda>s3.
     bind_err (setitem s3 ''tool_choice'' (JStr ''none'')) (\<lambda>s4.
     setitem s4 ''max_response_output_tokens'' JNull))))"

definition session_created :: "RTMiddleTier \<Rightarrow> (string \<times> json) list \<Rightarrow> error + frame option" where
  "session_created self message =
     bind_err (getitem (JObj message) ''session'') (\<lambda>session.
     bind_err (hide_session self session) (\<lambda>session'.
     Inr (Some (Json (JObj (AList.update ''session'' session' message))))))"

text \<open>
  The case \<^verbatim>\<open>"conversation.item.created"\<close>. The entry is built, and
  \<^verbatim>\<open>message["previous_item_id"]\<close> read, only when the call identifier is not yet a key.
\<close>

definition item_created :: "RTMiddleTier \<Rightarrow> (string \<times> json) list \<Rightarrow> frame \<Rightarrow> reply" where
  "item_created self message unchanged =
     (case item_has_type message ''function_call'' of
        Inl e \<Rightarrow> quiet self (Inl e)
      | Inr True \<Rightarrow>
          (case bind_err (getitem (JObj message) ''item'') (\<lambda>item.
                bind_err (getitem item ''call_id'') (\<lambda>call_id.
                bind_err (dict_key call_id) (\<lambda>k.
                if map_of (tools_pending self) k = None then
                  bind_err (getitem (JObj message) ''previous_item_id'') (\<lambda>prev.
                  Inr (tools_pending self @
                       [(k, \<lparr>tool_call_id = call_id, previous_id = prev\<rparr>)]))
                else Inr (tools_pending self)))) of
             Inl e \<Rightarrow> quiet self (Inl e)
           | Inr tracker \<Rightarrow>
               \<lparr>pending = tracker, to_server = [], to_client = [], outcome = Inr None\<rparr>)
      | Inr False \<Rightarrow>
          (case item_has_type message ''function_call_output'' of
             Inl e \<Rightarrow> quiet self (Inl e)
           | Inr True \<Rightarrow> quiet self (Inr None)
           | Inr False \<Rightarrow> quiet self (Inr (Some unchanged))))"

text \<open>
  The case \<^verbatim>\<open>"response.output_item.done"\<close> for a function call, up to the handler's
  return: the tracker entry, the tool, the arguments, the awaited result. Every
  exception of the branch is raised here, before anything is sent.
\<close>

definition lookup_tool :: "(string \<times> Tool) list \<Rightarrow> json \<Rightarrow> error + Tool" where
  "lookup_tool registry name =
     bind_err (dict_key name) (\<lambda>k.
       case k of
         JStr n \<Rightarrow> (case map_of registry n of None \<Rightarrow> Inl KeyError | Some t \<Rightarrow> Inr t)
       | _ \<Rightarrow> Inl KeyError)"

definition call_tool ::
  "(string \<Rightarrow> json option) \<Rightarrow> RTMiddleTier \<Rightarrow> json \<Rightarrow>
     error + (json \<times> RTToolCall \<times> json \<times> ToolResult)" where
  "call_tool loads self item =
     bind_err (getitem item ''call_id'') (\<lambda>call_id.
     bind_err (dict_key call_id) (\<lambda>k.
     bind_err (case map_of (tools_pending self) k of
                 None \<Rightarrow> Inl KeyError | Some c \<Rightarrow> Inr c) (\<lambda>tool_call.
     bind_err (getitem item ''name'') (\<lambda>name.
     bind_err (lookup_tool (tools self) name) (\<lambda>tool.
     bind_err (getitem item ''arguments'') (\<lambda>args.
     bind_err (json_loads loads args) (\<lambda>parsed.
     bind_err (target tool parsed) (\<lambda>result.
     Inr (call_id, tool_call, name, result)))))))))"

definition function_call_output :: "(json \<Rightarrow> string) \<Rightarrow> json \<Rightarrow> ToolResult \<Rightarrow> json" where
  "function_call_output dumps call_id result =
     JObj [(''type'', JStr ''conversation.item.create''),
           (''item'', JObj [(''type'', JStr ''function_call_output''),
                            (''call_id'', call_id),
                            (''output'', JStr (if destination result = TO_SERVER
                                               then to_text dumps result else []))])]"

definition tool_response :: "(json \<Rightarrow> string) \<Rightarrow> RTToolCall \<Rightarrow> json \<Rightarrow> ToolResult \<Rightarrow> json" where
  "tool_response dumps tool_call name result =
     JObj [(''type'', JStr ''extension.middle_tier_tool_response''),
           (''previous_item_id'', previous_id tool_call),
           (''tool_name'', name),
           (''tool_result'', JStr (to_text dumps result))]"

definition output_item_done ::
  "(string \<Rightarrow> json option) \<Rightarrow> (json \<Rightarrow> string) \<Rightarrow> RTMiddleTier \<Rightarrow> (string \<times> json) list \<Rightarrow>
     frame \<Rightarrow> reply" where
  "output_item_done loads dumps self message unchanged =
     (case item_has_type message ''function_call'' of
        Inl e \<Rightarrow> quiet self (Inl e)
      | Inr False \<Rightarrow> quiet self (Inr (Some unchanged))
      | Inr True \<Rightarrow>
          (case bind_err (getitem (JObj message) ''item'') (call_tool loads self) of
             Inl e \<Rightarrow> quiet self (Inl e)
           | Inr (call_id, tool_call, name, result) \<Rightarrow>
               \<lparr>pending = tools_pending self,
                to_server = [function_call_output dumps call_id result],
                to_client = (if destination result = TO_CLIENT
                             then [tool_response dumps tool_call name result] else []),
                outcome = Inr None\<rparr>))"

text \<open>
  The case \<^verbatim>\<open>"response.done"\<close>. The loop
  \<^verbatim>\<open>for i, output in enumerate(reversed(out)): if output["type"] == "function_call": out.pop(i)\<close>
  runs a reverse list iterator over the list it shrinks: the iterator holds an index that
  starts at the last position and goes down by one at each step, and stops as soon as
  the index is negative or not below the current length; \<open>i\<close> counts the steps from 0,
  and \<^verbatim>\<open>pop(i)\<close> raises IndexError when \<open>i\<close> is not below the current length.
\<close>

definition pop :: "'a list \<Rightarrow> nat \<Rightarrow> 'a list" where
  "pop xs i = take i xs @ drop (Suc i) xs"

function strip_loop :: "nat \<Rightarrow> int \<Rightarrow> json list \<Rightarrow> bool \<Rightarrow> error + json list \<times> bool" where
  "strip_loop i index out replace =
     (if index < 0 \<or> int (length out) \<le> index then Inr (out, replace)
      else
        case getitem (out ! nat index) ''type'' of
          Inl e \<Rightarrow> Inl e
        | Inr t \<Rightarrow>
            if t = JStr ''function_call'' then
              (if i < length out then strip_loop (Suc i) (index - 1) (pop out i) True
               else Inl IndexError)
            else strip_loop (Suc i) (index - 1) out replace)"
  by pat_completeness auto
termination
  by (relation "measure (\<lambda>(i, index, out, replace). nat (index + 1))") auto

declare strip_loop.simps [simp del]

text \<open>
  \<^verbatim>\<open>reversed\<close> of something else than a list: an empty dict or string gives no
  iteration; a non-empty one yields strings, and subscripting a string by
  \<^verbatim>\<open>"type"\<close> raises; nothing else is reversible.
\<close>

definition strip_output :: "json \<Rightarrow> error + json \<times> bool" where
  "strip_output output =
     (case output of
        JArr xs \<Rightarrow>
          bind_err (strip_loop 0 (int (length xs) - 1) xs False) (\<lambda>(ys, replace).
          Inr (JArr ys, replace))
      | JObj kvs \<Rightarrow> if kvs = [] then Inr (output, False) else Inl TypeError
      | JStr s \<Rightarrow> if s = [] then Inr (output, False) else Inl TypeError
      | _ \<Rightarrow> Inl TypeError)"

definition strip_response :: "(string \<times> json) list \<Rightarrow> frame \<Rightarrow> error + frame option" where
  "strip_response message unchanged =
     (case map_of message ''response'' of
        None \<Rightarrow> Inr (Some unchanged)
      | Some response \<Rightarrow>
          bind_err (getitem response ''output'') (\<lambda>output.
          bind_err (strip_output output) (\<lambda>(output', replace).
          if replace then
            bind_err (setitem response ''output'' output') (\<lambda>response'.
            Inr (Some (Json (JObj (AList.update ''response'' response' message)))))
          else Inr (Some unchanged))))"

definition response_done :: "RTMiddleTier \<Rightarrow> (string \<times> json) list \<Rightarrow> frame \<Rightarrow> reply" where
  "response_done self message unchanged =
     \<lparr>pending = [],
      to_server = (if tools_pending self \<noteq> [] then [JObj [(''type'', JStr ''response.create'')]]
                   else []),
      to_client = [],
      outcome = strip_response message unchanged\<rparr>"

text \<open>
  The whole handler: \<open>data\<close> is \<^verbatim>\<open>msg.data\<close>, \<open>loads\<close> and \<open>dumps\<close> are the
  library's \<^verbatim>\<open>json.loads\<close> (\<open>None\<close> when it raises) and \<^verbatim>\<open>json.dumps\<close>. A message
  that is \<^verbatim>\<open>None\<close> or of a type without a case is returned as it came.
\<close>

definition process_message_to_client ::
  "(string \<Rightarrow> json option) \<Rightarrow> (json \<Rightarrow> string) \<Rightarrow> RTMiddleTier \<Rightarrow> string \<Rightarrow> reply" where
  "process_message_to_client loads dumps self data =
     (case loads data of
        None \<Rightarrow> quiet self (Inl JSONDecodeError)
      | Some parsed \<Rightarrow>
          (case parsed of
             JNull \<Rightarrow> quiet self (Inr (Some (Text data)))
           | JObj message \<Rightarrow>
               (case map_of message ''type'' of
                  None \<Rightarrow> quiet self (Inl KeyError)
                | Some t \<Rightarrow>
                    if t = JStr ''session.created'' then
                      quiet self (session_created self message)
                    else if t = JStr ''response.output_item.added'' then
                      (case item_has_type message ''function_call'' of
                         Inl e \<Rightarrow> quiet self (Inl e)
                       | Inr True \<Rightarrow> quiet self (Inr None)
                       | Inr False \<Rightarrow> quiet self (Inr (Some (Text data))))
                    else if t = JStr ''conversation.item.created'' then
                      item_created self message (Text data)
                    else if t = JStr ''response.function_call_arguments.delta'' then
                      quiet self (Inr None)
                    else if t = JStr ''response.function_call_arguments.done'' then
                      quiet self (Inr None)
                    else if t = JStr ''response.output_item.done'' then
                      output_item_done loads dumps self message (Text data)
                    else if t = JStr ''response.done'' then
                      response_done self message (Text data)
                    else quiet self (Inr (Some (Text data))))
           | _ \<Rightarrow> quiet self (Inl TypeError)))"

section \<open>Client to upstream: \<^verbatim>\<open>_process_message_to_server\<close>\<close>

definition set_if :: "json option \<Rightarrow> string \<Rightarrow> json \<Rightarrow> error + json" where
  "set_if server_value k session =
     (case server_value of None \<Rightarrow> Inr session | Some v \<Rightarrow> setitem session k v)"

definition enforce_session :: "RTMiddleTier \<Rightarrow> json \<Rightarrow> error + json" where
  "enforce_session self session =
     bind_err (set_if (map_option JStr (system_message self)) ''instructions'' session) (\<lambda>s1.
     bind_err (set_if (map_option JFloat (temperature self)) ''temperature'' s1) (\<lambda>s2.
     bind_err (set_if (map_option JInt (max_tokens self)) ''max_response_output_tokens'' s2) (\<lambda>s3.
     bind_err (set_if (map_option JBool (disable_audio self)) ''disable_audio'' s3) (\<lambda>s4.
     bind_err (set_if (map_option JStr (voice_choice self)) ''voice'' s4) (\<lambda>s5.
     bind_err (setitem s5 ''tool_choice''
                 (JStr (if tools self \<noteq> [] then ''auto'' else ''none''))) (\<lambda>s6.
     setitem s6 ''tools'' (JArr (map (\<lambda>(name, tool). schema tool) (tools self)))))))))"

definition process_message_to_server ::
  "(string \<Rightarrow> json option) \<Rightarrow> RTMiddleTier \<Rightarrow> string \<Rightarrow> error + frame option" where
  "process_message_to_server loads self data =
     (case loads data of
        None \<Rightarrow> Inl JSONDecodeError
      | Some parsed \<Rightarrow>
          (case parsed of
             JNull \<Rightarrow> Inr (Some (Text data))
           | JObj message \<Rightarrow>
               (case map_of message ''type'' of
                  None \<Rightarrow> Inl KeyError
                | Some t \<Rightarrow>
                    if t = JStr ''session.update'' then
                      bind_err (getitem (JObj message) ''session'') (\<lambda>session.
                      bind_err (enforce_session self session) (\<lambda>session'.
                      Inr (Some (Json (JObj (AList.update ''session'' session' message))))))
                    else Inr (Some (Text data)))
           | _ \<Rightarrow> Inl TypeError))"

section \<open>The upstream-to-client pump of \<^verbatim>\<open>_forward_messages\<close>\<close>

text \<open>
  \<^verbatim>\<open>from_server_to_client\<close> handles the frames of the upstream socket one after the
  other. A frame that is not text is reported and skipped. An exception raised while a
  frame is processed leaves the loop, and with it the session: the frames after it are
  never read. The run records what the client socket was sent, what the upstream socket
  was sent, the tracker, and the exception that ended the loop, if any.
\<close>

datatype ws_msg = TEXT string | OTHER

record run =
  tracker :: "(json \<times> RTToolCall) list"
  upstream :: "frame list"
  client :: "frame list"
  raised :: "error option"

fun from_server_to_client ::
  "(string \<Rightarrow> json option) \<Rightarrow> (json \<Rightarrow> string) \<Rightarrow> RTMiddleTier \<Rightarrow> ws_msg list \<Rightarrow> run" where
  "from_server_to_client loads dumps self [] =
     \<lparr>tracker = tools_pending self, upstream = [], client = [], raised = None\<rparr>"
| "from_server_to_client loads dumps self (OTHER # msgs) =
     from_server_to_client loads dumps self msgs"
| "from_server_to_client loads dumps self (TEXT data # msgs) =
     (let r = process_message_to_client loads dumps self data;
          sent_up = map Json (to_server r);
          sent_down = map Json (to_client r)
      in case outcome r of
           Inl e \<Rightarrow> \<lparr>tracker = pending r, upstream = sent_up, client = sent_down,
                     raised = Some e\<rparr>
         | Inr new_msg \<Rightarrow>
             (let rest = from_server_to_client loads dumps
                           (self\<lparr>tools_pending := pending r\<rparr>) msgs
              in rest\<lparr>upstream := sent_up @ upstream rest,
                      client := sent_down @ (case new_msg of None \<Rightarrow> [] | Some f \<Rightarrow> [f])
                                  @ client rest\<rparr>))"

section \<open>Auxiliary notions for the properties\<close>

text \<open>
  The session object that \<open>enforce_session\<close> computes from a dict: the overwrites of
  \<^verbatim>\<open>_process_message_to_server\<close> in their order, as one expression.
\<close>

definition enforced :: "RTMiddleTier \<Rightarrow> (string \<times> json) list \<Rightarrow> (string \<times> json) list" where
  "enforced self s =
     (let s1 = (case system_message self of None \<Rightarrow> s
                | Some v \<Rightarrow> AList.update ''instructions'' (JStr v) s);
          s2 = (case temperature self of None \<Rightarrow> s1
                | Some v \<Rightarrow> AList.update ''temperature'' (JFloat v) s1);
          s3 = (case max_tokens self of None \<Rightarrow> s2
                | Some v \<Rightarrow> AList.update ''max_response_output_tokens'' (JInt v) s2);
          s4 = (case disable_audio self of None \<Rightarrow> s3
                | Some v \<Rightarrow> AList.update ''disable_audio'' (JBool v) s3);
          s5 = (case voice_choice self of None \<Rightarrow> s4
                | Some v \<Rightarrow> AList.update ''voice'' (JStr v) s4);
          s6 = AList.update ''tool_choice''
                 (JStr (if tools self \<noteq> [] then ''auto'' else ''none'')) s5
      in AList.update ''tools'' (JArr (map (\<lambda>(name, tool). schema tool) (tools self))) s6)"

text \<open>
  The messages about function calling that a client must not see: argument deltas and
  their end, and the three item messages when the item is a function call (or, for
  \<^verbatim>\<open>conversation.item.created\<close>, a function call output).
\<close>

definition item_type :: "(string \<times> json) list \<Rightarrow> json option" where
  "item_type message =
     (case map_of message ''item'' of Some (JObj item) \<Rightarrow> map_of item ''type'' | _ \<Rightarrow> None)"

definition function_call_traffic :: "json \<Rightarrow> bool" where
  "function_call_traffic v =
     (case v of
        JObj message \<Rightarrow>
          (let t = map_of message ''type''; it = item_type message
           in t = Some (JStr ''response.function_call_arguments.delta'')
            \<or> t = Some (JStr ''response.function_call_arguments.done'')
            \<or> t = Some (JStr ''response.output_item.added'') \<and> it = Some (JStr ''function_call'')
            \<or> t = Some (JStr ''conversation.item.created'')
                \<and> (it = Some (JStr ''function_call'') \<or> it = Some (JStr ''function_call_output''))
            \<or> t = Some (JStr ''response.output_item.done'') \<and> it = Some (JStr ''function_call''))
      | _ \<Rightarrow> False)"

text \<open>The value a frame carries: a received text is what \<open>loads\<close> makes of it.\<close>

fun frame_value :: "(string \<Rightarrow> json option) \<Rightarrow> frame \<Rightarrow> json option" where
  "frame_value loads (Text s) = loads s"
| "frame_value loads (Json v) = Some v"

section \<open>A concrete relay\<close>

text \<open>
  The search tool as \<^verbatim>\<open>ragtools.py\<close> registers it: the handler \<^verbatim>\<open>_MAIZE_search_tool\<close>
  first reads \<^verbatim>\<open>args['query']\<close>, then asks the knowledge base (an external service, whose
  answer \<open>docs\<close> is a parameter here) and returns the documents for the model. The
  schema is shortened to its first two fields.
\<close>

definition search_tool_schema :: json where
  "search_tool_schema = JObj [(''type'', JStr ''function''), (''name'', JStr ''search'')]"

definition MAIZE_search_tool :: "json \<Rightarrow> json \<Rightarrow> error + ToolResult" where
  "MAIZE_search_tool docs args =
     bind_err (getitem args ''query'') (\<lambda>query.
     Inr \<lparr>text = docs, destination = TO_SERVER\<rparr>)"

definition search_tool :: Tool where
  "search_tool =
     \<lparr>target = MAIZE_search_tool (JArr [JStr ''[doc1]: Turin'']), schema = search_tool_schema\<rparr>"

text \<open>A tool whose result goes to the client, as \<^verbatim>\<open>_report_grounding_tool\<close>'s does.\<close>

definition notify_tool :: Tool where
  "notify_tool =
     \<lparr>target = (\<lambda>args. Inr \<lparr>text = JStr ''shown'', destination = TO_CLIENT\<rparr>),
      schema = JObj [(''type'', JStr ''function''), (''name'', JStr ''notify'')]\<rparr>"

text \<open>
  A relay with these two tools, temperature 0.2, the voice of \<^verbatim>\<open>app.py\<close>, and a tracker
  holding the calls \<^verbatim>\<open>c1\<close> and \<^verbatim>\<open>c2\<close>.
\<close>

definition relay :: RTMiddleTier where
  "relay =
     \<lparr>tools = [(''search'', search_tool), (''notify'', notify_tool)],
      system_message = None, temperature = Some (2 / 10), max_tokens = None,
      disable_audio = None, voice_choice = Some ''alloy'',
      tools_pending =
        [(JStr ''c1'', \<lparr>tool_call_id = JStr ''c1'', previous_id = JStr ''p0''\<rparr>),
         (JStr ''c2'', \<lparr>tool_call_id = JStr ''c2'', previous_id = JStr ''p1''\<rparr>)]\<rparr>"

text \<open>The relay of the configuration scenario: temperature 0.2 and the search tool only.\<close>

definition scenario_relay :: RTMiddleTier where
  "scenario_relay =
     \<lparr>tools = [(''search'', search_tool)],
      system_message = None, temperature = Some (2 / 10), max_tokens = None,
      disable_audio = None, voice_choice = None, tools_pending = []\<rparr>"

text \<open>
  The parser and the serializer of the examples: \<open>table_loads\<close> parses exactly the texts
  listed in a table, \<open>tagged_dumps\<close> stands for a serializer.
\<close>

definition table_loads :: "(string \<times> json) list \<Rightarrow> string \<Rightarrow> json option" where
  "table_loads table = map_of table"

definition tagged_dumps :: "json \<Rightarrow> string" where
  "tagged_dumps v = ''<json>''"

text \<open>
  The frames of the examples, by the text they arrive as, and the argument strings of the
  two calls (\<^verbatim>\<open>{"query": "x"}\<close> and \<^verbatim>\<open>{}\<close>).
\<close>

definition function_call_item :: "string \<Rightarrow> string \<Rightarrow> string \<Rightarrow> json" where
  "function_call_item call_id name arguments =
     JObj [(''type'', JStr ''function_call''), (''call_id'', JStr call_id),
           (''name'', JStr name), (''arguments'', JStr arguments)]"

definition message_item :: json where
  "message_item = JObj [(''type'', JStr ''message''), (''role'', JStr ''assistant'')]"

definition frames :: "(string \<times> json) list" where
  "frames =
     [(''created'',
        JObj [(''type'', JStr ''session.created''),
              (''session'', JObj [(''instructions'', JStr ''secret''),
                                  (''voice'', JStr ''echo''),
                                  (''max_response_output_tokens'', JInt 4096)])]),
      (''update'',
        JObj [(''type'', JStr ''session.update''),
              (''session'', JObj [(''temperature'', JFloat (9 / 10)),
                                  (''tools'', JArr [JStr ''x''])])]),
      (''update with modalities'',
        JObj [(''type'', JStr ''session.update''),
              (''session'', JObj [(''instructions'', JStr ''client prompt''),
                                  (''modalities'', JArr [JStr ''text'']),
                                  (''temperature'', JFloat (9 / 10))])]),
      (''item c1'',
        JObj [(''type'', JStr ''conversation.item.created''),
              (''previous_item_id'', JStr ''p9''),
              (''item'', function_call_item ''c1'' ''search'' [])]),
      (''delta'',
        JObj [(''type'', JStr ''response.function_call_arguments.delta''),
              (''delta'', JStr ''{'')]),
      (''done c1'',
        JObj [(''type'', JStr ''response.output_item.done''),
              (''item'', function_call_item ''c1'' ''search'' ''query x'')]),
      (''done c2'',
        JObj [(''type'', JStr ''response.output_item.done''),
              (''item'', function_call_item ''c2'' ''notify'' ''query x'')]),
      (''done c1 without query'',
        JObj [(''type'', JStr ''response.output_item.done''),
              (''item'', function_call_item ''c1'' ''search'' ''empty'')]),
      (''response done'',
        JObj [(''type'', JStr ''response.done''),
              (''response'', JObj [(''output'', JArr [message_item])])]),
      (''response done, call first'',
        JObj [(''type'', JStr ''response.done''),
              (''response'', JObj [(''output'',
                 JArr [function_call_item ''c1'' ''search'' ''query x'', message_item])])]),
      (''response done, call last'',
        JObj [(''type'', JStr ''response.done''),
              (''response'', JObj [(''output'',
                 JArr [message_item, function_call_item ''c1'' ''search'' ''query x''])])]),
      (''done c1 unparsable'',
        JObj [(''type'', JStr ''response.output_item.done''),
              (''item'', function_call_item ''c1'' ''search'' ''{query'')]),
      (''query x'', JObj [(''query'', JStr ''x'')]),
      (''empty'', JObj [])]"

section \<open>Properties of the outbound transformer\<close>

lemma set_if_obj:
  "set_if sv k (JObj s) = Inr (JObj (case sv of None \<Rightarrow> s | Some v \<Rightarrow> AList.update k v s))"
  by (simp add: set_if_def split: option.splits)

lemma enforce_session_obj: "enforce_session self (JObj s) = Inr (JObj (enforced self s))"
  by (simp add: enforce_session_def set_if_obj enforced_def Let_def split: option.splits)

lemma session_update_obj:
  assumes "loads data = Some (JObj message)"
    and "map_of message ''type'' = Some (JStr ''session.update'')"
    and "map_of message ''session'' = Some (JObj session)"
  shows "process_message_to_server loads self data =
           Inr (Some (Json (JObj (AList.update ''session'' (JObj (enforced self session)) message))))"
  using assms by (simp add: process_message_to_server_def enforce_session_obj)

lemma enforced_fields:
  "system_message self = Some a \<Longrightarrow> map_of (enforced self s) ''instructions'' = Some (JStr a)"
  "temperature self = Some b \<Longrightarrow> map_of (enforced self s) ''temperature'' = Some (JFloat b)"
  "max_tokens self = Some c \<Longrightarrow>
     map_of (enforced self s) ''max_response_output_tokens'' = Some (JInt c)"
  "disable_audio self = Some d \<Longrightarrow> map_of (enforced self s) ''disable_audio'' = Some (JBool d)"
  "voice_choice self = Some e \<Longrightarrow> map_of (enforced self s) ''voice'' = Some (JStr e)"
  "map_of (enforced self s) ''tools'' =
     Some (JArr (map (\<lambda>(name, tool). schema tool) (tools self)))"
  "map_of (enforced self s) ''tool_choice'' =
     Some (JStr (if tools self \<noteq> [] then ''auto'' else ''none''))"
  by (simp_all add: enforced_def Let_def update_conv' split: option.splits)

lemma enforced_frame:
  "k \<notin> {''instructions'', ''temperature'', ''max_response_output_tokens'', ''disable_audio'',
           ''voice'', ''tools'', ''tool_choice''} \<Longrightarrow> map_of (enforced self s) k = map_of s k"
  "system_message self = None \<Longrightarrow>
     map_of (enforced self s) ''instructions'' = map_of s ''instructions''"
  "temperature self = None \<Longrightarrow>
     map_of (enforced self s) ''temperature'' = map_of s ''temperature''"
  "max_tokens self = None \<Longrightarrow>
     map_of (enforced self s) ''max_response_output_tokens'' =
     map_of s ''max_response_output_tokens''"
  "disable_audio self = None \<Longrightarrow>
     map_of (enforced self s) ''disable_audio'' = map_of s ''disable_audio''"
  "voice_choice self = None \<Longrightarrow> map_of (enforced self s) ''voice'' = map_of s ''voice''"
  by (simp_all add: enforced_def Let_def update_conv' split: option.splits)

text \<open>
  Claim C4. A client \<^verbatim>\<open>session.update\<close> whose session is an object is forwarded
  re-serialized, with the session replaced by one in which every server-enforced field
  whose server value is set (instructions, temperature, max output tokens, audio-disable
  flag, voice) holds the server value, \<^verbatim>\<open>tools\<close> holds the schemas of all registered
  tools, and \<^verbatim>\<open>tool_choice\<close> is \<^verbatim>\<open>"auto"\<close> when a tool is registered and
  \<^verbatim>\<open>"none"\<close> otherwise.
\<close>

theorem session_update_enforced:
  assumes "loads data = Some (JObj message)"
    and "map_of message ''type'' = Some (JStr ''session.update'')"
    and "map_of message ''session'' = Some (JObj session)"
  shows "\<exists>session'.
           process_message_to_server loads self data =
             Inr (Some (Json (JObj (AList.update ''session'' (JObj session') message))))
         \<and> (\<forall>v. system_message self = Some v \<longrightarrow> map_of session' ''instructions'' = Some (JStr v))
         \<and> (\<forall>v. temperature self = Some v \<longrightarrow> map_of session' ''temperature'' = Some (JFloat v))
         \<and> (\<forall>v. max_tokens self = Some v \<longrightarrow>
                map_of session' ''max_response_output_tokens'' = Some (JInt v))
         \<and> (\<forall>v. disable_audio self = Some v \<longrightarrow> map_of session' ''disable_audio'' = Some (JBool v))
         \<and> (\<forall>v. voice_choice self = Some v \<longrightarrow> map_of session' ''voice'' = Some (JStr v))
         \<and> map_of session' ''tools'' = Some (JArr (map (\<lambda>(name, tool). schema tool) (tools self)))
         \<and> map_of session' ''tool_choice'' =
               Some (JStr (if tools self \<noteq> [] then ''auto'' else ''none''))"
  using assms session_update_obj [of loads data message session self]
    enforced_fields [of self]
  by (intro exI [of _ "enforced self session"]) simp

text \<open>
  The scenario of the claim: the client sends temperature 0.9 and tools \<^verbatim>\<open>["x"]\<close>, the
  server has temperature 0.2 and the one tool \<^verbatim>\<open>search\<close>; the forwarded session has
  temperature 0.2, the search schema as its only tool, and tool choice \<^verbatim>\<open>"auto"\<close>.
\<close>

theorem session_update_enforced_witness:
  "table_loads frames ''update'' =
     Some (JObj [(''type'', JStr ''session.update''),
                 (''session'', JObj [(''temperature'', JFloat (9 / 10)),
                                     (''tools'', JArr [JStr ''x''])])])
   \<and> (\<exists>session'.
         process_message_to_server (table_loads frames) scenario_relay ''update'' =
           Inr (Some (Json (JObj [(''type'', JStr ''session.update''),
                                  (''session'', JObj session')])))
       \<and> map_of session' ''temperature'' = Some (JFloat (2 / 10))
       \<and> map_of session' ''tools'' = Some (JArr [search_tool_schema])
       \<and> map_of session' ''tool_choice'' = Some (JStr ''auto''))"
proof -
  let ?session = "[(''temperature'', JFloat (9 / 10)), (''tools'', JArr [JStr ''x''])]"
  let ?message = "[(''type'', JStr ''session.update''), (''session'', JObj ?session)]"
  have 1: "table_loads frames ''update'' = Some (JObj ?message)"
    by (simp add: table_loads_def frames_def)
  have 2: "map_of ?message ''type'' = Some (JStr ''session.update'')" by simp
  have 3: "map_of ?message ''session'' = Some (JObj ?session)" by simp
  have 4: "temperature scenario_relay = Some (2 / 10)" "tools scenario_relay \<noteq> []"
    "map (\<lambda>(name, tool). schema tool) (tools scenario_relay) = [search_tool_schema]"
    by (simp_all add: scenario_relay_def search_tool_def)
  from session_update_enforced [of "table_loads frames" "''update''" ?message ?session
        scenario_relay, OF 1 2 3]
  obtain session' where
    "process_message_to_server (table_loads frames) scenario_relay ''update'' =
       Inr (Some (Json (JObj (AList.update ''session'' (JObj session') ?message))))"
    "map_of session' ''temperature'' = Some (JFloat (2 / 10))"
    "map_of session' ''tools'' = Some (JArr [search_tool_schema])"
    "map_of session' ''tool_choice'' = Some (JStr ''auto'')"
    using 4 by auto
  with 1 show ?thesis by simp
qed

text \<open>
  Claim C9. In the forwarded \<^verbatim>\<open>session.update\<close>, every field of the session other
  than the five server-enforced ones and \<^verbatim>\<open>tools\<close> and \<^verbatim>\<open>tool_choice\<close> is as the
  client sent it (present with the same value, or absent), and so is each
  server-enforced field whose server value is unset. The other fields of the message
  itself are untouched: only its \<^verbatim>\<open>session\<close> entry is replaced.
\<close>

theorem session_update_frame:
  assumes "loads data = Some (JObj message)"
    and "map_of message ''type'' = Some (JStr ''session.update'')"
    and "map_of message ''session'' = Some (JObj session)"
  shows "\<exists>session'.
           process_message_to_server loads self data =
             Inr (Some (Json (JObj (AList.update ''session'' (JObj session') message))))
         \<and> (\<forall>k. k \<notin> {''instructions'', ''temperature'', ''max_response_output_tokens'',
                        ''disable_audio'', ''voice'', ''tools'', ''tool_choice''} \<longrightarrow>
                map_of session' k = map_of session k)
         \<and> (system_message self = None \<longrightarrow>
                map_of session' ''instructions'' = map_of session ''instructions'')
         \<and> (temperature self = None \<longrightarrow>
                map_of session' ''temperature'' = map_of session ''temperature'')
         \<and> (max_tokens self = None \<longrightarrow>
                map_of session' ''max_response_output_tokens'' =
                map_of session ''max_response_output_tokens'')
         \<and> (disable_audio self = None \<longrightarrow>
                map_of session' ''disable_audio'' = map_of session ''disable_audio'')
         \<and> (voice_choice self = None \<longrightarrow> map_of session' ''voice'' = map_of session ''voice'')"
  using assms session_update_obj [of loads data message session self]
    enforced_frame [where self = self and s = session]
  by (intro exI [of _ "enforced self session"]) simp

text \<open>
  At a relay without a system message, a client session with instructions and
  modalities keeps both.
\<close>

theorem session_update_frame_witness:
  "table_loads frames ''update with modalities'' =
     Some (JObj [(''type'', JStr ''session.update''),
                 (''session'', JObj [(''instructions'', JStr ''client prompt''),
                                     (''modalities'', JArr [JStr ''text'']),
                                     (''temperature'', JFloat (9 / 10))])])
   \<and> system_message relay = None
   \<and> (\<exists>session'.
         process_message_to_server (table_loads frames) relay ''update with modalities'' =
           Inr (Some (Json (JObj [(''type'', JStr ''session.update''),
                                  (''session'', JObj session')])))
       \<and> map_of session' ''modalities'' = Some (JArr [JStr ''text''])
       \<and> map_of session' ''instructions'' = Some (JStr ''client prompt''))"
proof -
  let ?session = "[(''instructions'', JStr ''client prompt''),
                   (''modalities'', JArr [JStr ''text'']),
                   (''temperature'', JFloat (9 / 10))]"
  let ?message = "[(''type'', JStr ''session.update''), (''session'', JObj ?session)]"
  have 1: "table_loads frames ''update with modalities'' = Some (JObj ?message)"
    by (simp add: table_loads_def frames_def)
  have 2: "map_of ?message ''type'' = Some (JStr ''session.update'')" by simp
  have 3: "map_of ?message ''session'' = Some (JObj ?session)" by simp
  have 4: "system_message relay = None" by (simp add: relay_def)
  from session_update_frame [of "table_loads frames" "''update with modalities''" ?message
        ?session relay, OF 1 2 3]
  obtain session' where a:
    "process_message_to_server (table_loads frames) relay ''update with modalities'' =
       Inr (Some (Json (JObj (AList.update ''session'' (JObj session') ?message))))"
    and b: "\<forall>k. k \<notin> {''instructions'', ''temperature'', ''max_response_output_tokens'',
                       ''disable_audio'', ''voice'', ''tools'', ''tool_choice''} \<longrightarrow>
               map_of session' k = map_of ?session k"
    and c: "system_message relay = None \<longrightarrow>
              map_of session' ''instructions'' = map_of ?session ''instructions''"
    by (elim exE conjE)
  have "map_of session' ''modalities'' = map_of ?session ''modalities''"
    using b [rule_format, of "''modalities''"] by simp
  moreover have "map_of session' ''instructions'' = map_of ?session ''instructions''"
    using c 4 by simp
  ultimately have
    "map_of session' ''modalities'' = Some (JArr [JStr ''text''])"
    "map_of session' ''instructions'' = Some (JStr ''client prompt'')"
    by simp_all
  with a have "\<exists>session'.
         process_message_to_server (table_loads frames) relay ''update with modalities'' =
           Inr (Some (Json (JObj [(''type'', JStr ''session.update''),
                                  (''session'', JObj session')])))
       \<and> map_of session' ''modalities'' = Some (JArr [JStr ''text''])
       \<and> map_of session' ''instructions'' = Some (JStr ''client prompt'')"
    by (intro exI [of _ session']) simp
  with 1 4 show ?thesis by simp
qed

section \<open>Properties of the inbound transformer\<close>

lemma hide_session_obj:
  "hide_session self (JObj s) = Inr (JObj
     (AList.update ''max_response_output_tokens'' JNull
     (AList.update ''tool_choice'' (JStr ''none'')
     (AList.update ''voice'' (voice_value self)
     (AList.update ''tools'' (JArr [])
     (AList.update ''instructions'' (JStr []) s))))))"
  by (simp add: hide_session_def)

text \<open>
  Claim C5. Whatever an upstream \<^verbatim>\<open>session.created\<close> carries in its session object,
  the copy forwarded to the client has empty instructions, an empty tool list, tool
  choice \<^verbatim>\<open>"none"\<close>, a null \<^verbatim>\<open>max_response_output_tokens\<close> and the configured voice
  (null when no voice is configured); nothing is sent upstream and the tracker is
  untouched.
\<close>

theorem session_created_redacted:
  assumes "loads data = Some (JObj message)"
    and "map_of message ''type'' = Some (JStr ''session.created'')"
    and "map_of message ''session'' = Some (JObj session)"
  shows "\<exists>session'.
           process_message_to_client loads dumps self data =
             \<lparr>pending = tools_pending self, to_server = [], to_client = [],
              outcome = Inr (Some (Json (JObj (AList.update ''session'' (JObj session')
                                                 message))))\<rparr>
         \<and> map_of session' ''instructions'' = Some (JStr [])
         \<and> map_of session' ''tools'' = Some (JArr [])
         \<and> map_of session' ''tool_choice'' = Some (JStr ''none'')
         \<and> map_of session' ''max_response_output_tokens'' = Some JNull
         \<and> map_of session' ''voice'' =
               Some (case voice_choice self of None \<Rightarrow> JNull | Some v \<Rightarrow> JStr v)"
proof -
  obtain s' where s': "hide_session self (JObj session) = Inr (JObj s')"
    and fields: "map_of s' ''instructions'' = Some (JStr [])"
      "map_of s' ''tools'' = Some (JArr [])"
      "map_of s' ''tool_choice'' = Some (JStr ''none'')"
      "map_of s' ''max_response_output_tokens'' = Some JNull"
      "map_of s' ''voice'' = Some (voice_value self)"
    by (simp add: hide_session_obj update_conv')
  have "process_message_to_client loads dumps self data =
          \<lparr>pending = tools_pending self, to_server = [], to_client = [],
           outcome = Inr (Some (Json (JObj (AList.update ''session'' (JObj s') message))))\<rparr>"
    using assms s' by (simp add: process_message_to_client_def session_created_def quiet_def)
  with fields show ?thesis
    by (intro exI [of _ s']) (simp add: voice_value_def)
qed

text \<open>
  A \<^verbatim>\<open>session.created\<close> with instructions, the voice \<^verbatim>\<open>echo\<close> and a token limit, at a
  relay whose voice is \<^verbatim>\<open>alloy\<close>.
\<close>

theorem session_created_redacted_witness:
  "table_loads frames ''created'' =
     Some (JObj [(''type'', JStr ''session.created''),
                 (''session'', JObj [(''instructions'', JStr ''secret''),
                                     (''voice'', JStr ''echo''),
                                     (''max_response_output_tokens'', JInt 4096)])])
   \<and> (\<exists>session'.
         outcome (process_message_to_client (table_loads frames) tagged_dumps relay ''created'') =
           Inr (Some (Json (JObj [(''type'', JStr ''session.created''),
                                  (''session'', JObj session')])))
       \<and> map_of session' ''instructions'' = Some (JStr [])
       \<and> map_of session' ''tools'' = Some (JArr [])
       \<and> map_of session' ''tool_choice'' = Some (JStr ''none'')
       \<and> map_of session' ''max_response_output_tokens'' = Some JNull
       \<and> map_of session' ''voice'' = Some (JStr ''alloy''))"
proof -
  let ?session = "[(''instructions'', JStr ''secret''), (''voice'', JStr ''echo''),
                   (''max_response_output_tokens'', JInt 4096)]"
  let ?message = "[(''type'', JStr ''session.created''), (''session'', JObj ?session)]"
  have 1: "table_loads frames ''created'' = Some (JObj ?message)"
    by (simp add: table_loads_def frames_def)
  have 2: "map_of ?message ''type'' = Some (JStr ''session.created'')" by simp
  have 3: "map_of ?message ''session'' = Some (JObj ?session)" by simp
  have 4: "voice_choice relay = Some ''alloy''" by (simp add: relay_def)
  from session_created_redacted [of "table_loads frames" "''created''" ?message ?session
        tagged_dumps relay, OF 1 2 3]
  obtain session' where a:
    "process_message_to_client (table_loads frames) tagged_dumps relay ''created'' =
       \<lparr>pending = tools_pending relay, to_server = [], to_client = [],
        outcome = Inr (Some (Json (JObj (AList.update ''session'' (JObj session')
                                           ?message))))\<rparr>"
    and b: "map_of session' ''instructions'' = Some (JStr [])"
      "map_of session' ''tools'' = Some (JArr [])"
      "map_of session' ''tool_choice'' = Some (JStr ''none'')"
      "map_of session' ''max_response_output_tokens'' = Some JNull"
    and c: "map_of session' ''voice'' =
              Some (case voice_choice relay of None \<Rightarrow> JNull | Some v \<Rightarrow> JStr v)"
    by (elim exE conjE)
  have "outcome (process_message_to_client (table_loads frames) tagged_dumps relay ''created'') =
          Inr (Some (Json (JObj [(''type'', JStr ''session.created''),
                                 (''session'', JObj session')])))"
    by (simp add: a)
  moreover have "map_of session' ''voice'' = Some (JStr ''alloy'')"
    using c 4 by simp
  ultimately show ?thesis
    using 1 b by (intro conjI exI [of _ session']) simp_all
qed

text \<open>The frames of the examples, as \<open>table_loads\<close> parses them.\<close>

lemma frames_lookup:
  "table_loads frames ''response done'' =
     Some (JObj [(''type'', JStr ''response.done''),
                 (''response'', JObj [(''output'', JArr [message_item])])])"
  "table_loads frames ''item c1'' =
     Some (JObj [(''type'', JStr ''conversation.item.created''),
                 (''previous_item_id'', JStr ''p9''),
                 (''item'', function_call_item ''c1'' ''search'' [])])"
  "table_loads frames ''done c1'' =
     Some (JObj [(''type'', JStr ''response.output_item.done''),
                 (''item'', function_call_item ''c1'' ''search'' ''query x'')])"
  "table_loads frames ''done c2'' =
     Some (JObj [(''type'', JStr ''response.output_item.done''),
                 (''item'', function_call_item ''c2'' ''notify'' ''query x'')])"
  "table_loads frames ''done c1 without query'' =
     Some (JObj [(''type'', JStr ''response.output_item.done''),
                 (''item'', function_call_item ''c1'' ''search'' ''empty'')])"
  "table_loads frames ''query x'' = Some (JObj [(''query'', JStr ''x'')])"
  "table_loads frames ''empty'' = Some (JObj [])"
  by (simp_all add: table_loads_def frames_def)

text \<open>
  Claim C6. When a \<^verbatim>\<open>response.done\<close> arrives and the tracker is not empty, the
  tracker is empty afterwards and exactly one message, \<^verbatim>\<open>{"type": "response.create"}\<close>,
  has been sent upstream; when the tracker is empty, nothing is sent upstream and the
  tracker stays empty. This holds whatever else the message contains, also when
  stripping its output list raises afterwards.
\<close>

theorem response_done_continuation:
  assumes "loads data = Some (JObj message)"
    and "map_of message ''type'' = Some (JStr ''response.done'')"
  shows "(tools_pending self \<noteq> [] \<longrightarrow>
            pending (process_message_to_client loads dumps self data) = []
          \<and> to_server (process_message_to_client loads dumps self data) =
              [JObj [(''type'', JStr ''response.create'')]])
       \<and> (tools_pending self = [] \<longrightarrow>
            pending (process_message_to_client loads dumps self data) = []
          \<and> to_server (process_message_to_client loads dumps self data) = [])"
  using assms by (simp add: process_message_to_client_def response_done_def)

text \<open>The same \<^verbatim>\<open>response.done\<close> at a relay with two pending calls and at one with none.\<close>

theorem response_done_continuation_witness:
  "tools_pending relay \<noteq> []
   \<and> pending (process_message_to_client (table_loads frames) tagged_dumps relay
        ''response done'') = []
   \<and> to_server (process_message_to_client (table_loads frames) tagged_dumps relay
        ''response done'') = [JObj [(''type'', JStr ''response.create'')]]
   \<and> tools_pending scenario_relay = []
   \<and> pending (process_message_to_client (table_loads frames) tagged_dumps scenario_relay
        ''response done'') = []
   \<and> to_server (process_message_to_client (table_loads frames) tagged_dumps scenario_relay
        ''response done'') = []"
proof -
  let ?message = "[(''type'', JStr ''response.done''),
                   (''response'', JObj [(''output'', JArr [message_item])])]"
  have 1: "table_loads frames ''response done'' = Some (JObj ?message)"
    by (rule frames_lookup)
  have 2: "map_of ?message ''type'' = Some (JStr ''response.done'')" by simp
  have 3: "tools_pending relay \<noteq> []" "tools_pending scenario_relay = []"
    by (simp_all add: relay_def scenario_relay_def)
  show ?thesis
    using 3
      response_done_continuation [of "table_loads frames" "''response done''" ?message relay
        tagged_dumps, OF 1 2]
      response_done_continuation [of "table_loads frames" "''response done''" ?message
        scenario_relay tagged_dumps, OF 1 2]
    by simp
qed

lemma item_has_type_obj:
  "map_of message ''item'' = Some (JObj item) \<Longrightarrow> map_of item ''type'' = Some v \<Longrightarrow>
     item_has_type message t = Inr (v = JStr t)"
  by (simp add: item_has_type_def)

text \<open>
  Claim C10. A \<^verbatim>\<open>conversation.item.created\<close> for a function call whose call
  identifier is already a key of the tracker leaves the tracker as it is: the entry
  recorded first, with its preceding item identifier, is still the one found under that
  key, whatever \<^verbatim>\<open>previous_item_id\<close> the new message carries (it is not even read). The
  message is suppressed and nothing is sent.
\<close>

theorem item_created_idempotent:
  assumes "loads data = Some (JObj message)"
    and "map_of message ''type'' = Some (JStr ''conversation.item.created'')"
    and "map_of message ''item'' = Some (JObj item)"
    and "map_of item ''type'' = Some (JStr ''function_call'')"
    and "map_of item ''call_id'' = Some call_id"
    and "dict_key call_id = Inr k"
    and "map_of (tools_pending self) k = Some entry"
  shows "process_message_to_client loads dumps self data =
           \<lparr>pending = tools_pending self, to_server = [], to_client = [], outcome = Inr None\<rparr>
       \<and> map_of (pending (process_message_to_client loads dumps self data)) k = Some entry"
  using assms
  by (simp add: process_message_to_client_def item_created_def item_has_type_obj quiet_def)

text \<open>
  The call \<^verbatim>\<open>c1\<close> was recorded after item \<^verbatim>\<open>p0\<close>; a second announcement of it after
  item \<^verbatim>\<open>p9\<close> changes nothing.
\<close>

theorem item_created_idempotent_witness:
  "map_of (tools_pending relay) (JStr ''c1'') =
     Some \<lparr>tool_call_id = JStr ''c1'', previous_id = JStr ''p0''\<rparr>
   \<and> table_loads frames ''item c1'' =
       Some (JObj [(''type'', JStr ''conversation.item.created''),
                   (''previous_item_id'', JStr ''p9''),
                   (''item'', function_call_item ''c1'' ''search'' [])])
   \<and> process_message_to_client (table_loads frames) tagged_dumps relay ''item c1'' =
       \<lparr>pending = tools_pending relay, to_server = [], to_client = [], outcome = Inr None\<rparr>
   \<and> map_of (pending (process_message_to_client (table_loads frames) tagged_dumps relay
        ''item c1'')) (JStr ''c1'') =
       Some \<lparr>tool_call_id = JStr ''c1'', previous_id = JStr ''p0''\<rparr>"
proof -
  let ?item = "[(''type'', JStr ''function_call''), (''call_id'', JStr ''c1''),
                (''name'', JStr ''search''), (''arguments'', JStr [])]"
  let ?message = "[(''type'', JStr ''conversation.item.created''),
                   (''previous_item_id'', JStr ''p9''), (''item'', JObj ?item)]"
  have 1: "table_loads frames ''item c1'' = Some (JObj ?message)"
    by (simp add: frames_lookup function_call_item_def)
  have 2: "map_of ?message ''type'' = Some (JStr ''conversation.item.created'')"
    "map_of ?message ''item'' = Some (JObj ?item)"
    "map_of ?item ''type'' = Some (JStr ''function_call'')"
    "map_of ?item ''call_id'' = Some (JStr ''c1'')"
    "dict_key (JStr ''c1'') = Inr (JStr ''c1'')"
    by simp_all
  have 3: "map_of (tools_pending relay) (JStr ''c1'') =
             Some \<lparr>tool_call_id = JStr ''c1'', previous_id = JStr ''p0''\<rparr>"
    by (simp add: relay_def)
  show ?thesis
    using 3 frames_lookup(2) item_created_idempotent [of "table_loads frames" "''item c1''"
        ?message ?item "JStr ''c1''" "JStr ''c1''" relay _ tagged_dumps, OF 1 2 3]
    by simp
qed

lemma call_tool_obj:
  assumes "map_of item ''call_id'' = Some call_id"
    and "dict_key call_id = Inr k"
    and "map_of (tools_pending self) k = Some tool_call"
    and "map_of item ''name'' = Some (JStr name)"
    and "map_of (tools self) name = Some tool"
    and "map_of item ''arguments'' = Some (JStr arguments)"
    and "loads arguments = Some args"
  shows "call_tool loads self (JObj item) =
           bind_err (target tool args) (\<lambda>result. Inr (call_id, tool_call, JStr name, result))"
  using assms by (simp add: call_tool_def lookup_tool_def)

lemma output_item_done_obj:
  assumes "loads data = Some (JObj message)"
    and "map_of message ''type'' = Some (JStr ''response.output_item.done'')"
    and "map_of message ''item'' = Some (JObj item)"
    and "map_of item ''type'' = Some (JStr ''function_call'')"
  shows "process_message_to_client loads dumps self data =
          (case call_tool loads self (JObj item) of
             Inl e \<Rightarrow> quiet self (Inl e)
           | Inr (call_id, tool_call, name, result) \<Rightarrow>
               \<lparr>pending = tools_pending self,
                to_server = [function_call_output dumps call_id result],
                to_client = (if destination result = TO_CLIENT
                             then [tool_response dumps tool_call name result] else []),
                outcome = Inr None\<rparr>)"
  using assms
  by (simp add: process_message_to_client_def output_item_done_def item_has_type_obj)

text \<open>
  Claim C1, as the code has it. For a \<^verbatim>\<open>response.output_item.done\<close> whose item is a
  function call, with the call identifier in the tracker and the tool name in the
  registry, and provided that the item's \<^verbatim>\<open>arguments\<close> is a string which
  \<^verbatim>\<open>json.loads\<close> parses and that the handler returns a result: exactly one message is
  sent upstream, a \<^verbatim>\<open>conversation.item.create\<close> with a \<^verbatim>\<open>function_call_output\<close>
  item of the same call identifier, whose output is the result's text if the destination
  is \<^verbatim>\<open>TO_SERVER\<close> and the empty string otherwise; the client is sent one
  \<^verbatim>\<open>extension.middle_tier_tool_response\<close> with the recorded previous item identifier,
  the tool name and the result's text if the destination is \<^verbatim>\<open>TO_CLIENT\<close>, and nothing
  otherwise; and the handler returns \<^verbatim>\<open>None\<close>, so the message itself is not forwarded.
\<close>

theorem function_call_dispatch:
  assumes "loads data = Some (JObj message)"
    and "map_of message ''type'' = Some (JStr ''response.output_item.done'')"
    and "map_of message ''item'' = Some (JObj item)"
    and "map_of item ''type'' = Some (JStr ''function_call'')"
    and "map_of item ''call_id'' = Some call_id"
    and "dict_key call_id = Inr k"
    and "map_of (tools_pending self) k = Some tool_call"
    and "map_of item ''name'' = Some (JStr name)"
    and "map_of (tools self) name = Some tool"
    and "map_of item ''arguments'' = Some (JStr arguments)"
    and "loads arguments = Some args"
    and "target tool args = Inr result"
  shows "process_message_to_client loads dumps self data =
           \<lparr>pending = tools_pending self,
            to_server =
              [JObj [(''type'', JStr ''conversation.item.create''),
                     (''item'', JObj [(''type'', JStr ''function_call_output''),
                                      (''call_id'', call_id),
                                      (''output'', JStr (if destination result = TO_SERVER
                                                         then to_text dumps result else []))])]],
            to_client =
              (if destination result = TO_CLIENT
               then [JObj [(''type'', JStr ''extension.middle_tier_tool_response''),
                           (''previous_item_id'', previous_id tool_call),
                           (''tool_name'', JStr name),
                           (''tool_result'', JStr (to_text dumps result))]]
               else []),
            outcome = Inr None\<rparr>"
  using assms
  by (simp add: output_item_done_obj [where message = message and item = item]
      call_tool_obj [where call_id = call_id and k = k and tool_call = tool_call
        and name = name and tool = tool and arguments = arguments and args = args]
      function_call_output_def tool_response_def)

text \<open>
  The call \<^verbatim>\<open>c1\<close> of the search tool, whose documents go upstream, and the call
  \<^verbatim>\<open>c2\<close> of the tool whose result goes to the client.
\<close>

theorem function_call_dispatch_witness:
  "process_message_to_client (table_loads frames) tagged_dumps relay ''done c1'' =
     \<lparr>pending = tools_pending relay,
      to_server =
        [JObj [(''type'', JStr ''conversation.item.create''),
               (''item'', JObj [(''type'', JStr ''function_call_output''),
                                (''call_id'', JStr ''c1''),
                                (''output'', JStr (tagged_dumps (JArr [JStr ''[doc1]: Turin''])))])]],
      to_client = [],
      outcome = Inr None\<rparr>
   \<and> process_message_to_client (table_loads frames) tagged_dumps relay ''done c2'' =
     \<lparr>pending = tools_pending relay,
      to_server =
        [JObj [(''type'', JStr ''conversation.item.create''),
               (''item'', JObj [(''type'', JStr ''function_call_output''),
                                (''call_id'', JStr ''c2''),
                                (''output'', JStr [])])]],
      to_client =
        [JObj [(''type'', JStr ''extension.middle_tier_tool_response''),
               (''previous_item_id'', JStr ''p1''),
               (''tool_name'', JStr ''notify''),
               (''tool_result'', JStr ''shown'')]],
      outcome = Inr None\<rparr>"
proof -
  let ?item1 = "[(''type'', JStr ''function_call''), (''call_id'', JStr ''c1''),
                 (''name'', JStr ''search''), (''arguments'', JStr ''query x'')]"
  let ?item2 = "[(''type'', JStr ''function_call''), (''call_id'', JStr ''c2''),
                 (''name'', JStr ''notify''), (''arguments'', JStr ''query x'')]"
  let ?message1 = "[(''type'', JStr ''response.output_item.done''), (''item'', JObj ?item1)]"
  let ?message2 = "[(''type'', JStr ''response.output_item.done''), (''item'', JObj ?item2)]"
  let ?call1 = "\<lparr>tool_call_id = JStr ''c1'', previous_id = JStr ''p0''\<rparr>"
  let ?call2 = "\<lparr>tool_call_id = JStr ''c2'', previous_id = JStr ''p1''\<rparr>"
  let ?args = "JObj [(''query'', JStr ''x'')]"
  let ?result1 = "\<lparr>text = JArr [JStr ''[doc1]: Turin''], destination = TO_SERVER\<rparr>"
  let ?result2 = "\<lparr>text = JStr ''shown'', destination = TO_CLIENT\<rparr>"
  have 1: "table_loads frames ''done c1'' = Some (JObj ?message1)"
    "table_loads frames ''done c2'' = Some (JObj ?message2)"
    by (simp_all add: frames_lookup function_call_item_def)
  have 2: "map_of (tools_pending relay) (JStr ''c1'') = Some ?call1"
    "map_of (tools_pending relay) (JStr ''c2'') = Some ?call2"
    "map_of (tools relay) ''search'' = Some search_tool"
    "map_of (tools relay) ''notify'' = Some notify_tool"
    by (simp_all add: relay_def)
  have 3: "target search_tool ?args = Inr ?result1" "target notify_tool ?args = Inr ?result2"
    by (simp_all add: search_tool_def MAIZE_search_tool_def notify_tool_def)
  have a: "process_message_to_client (table_loads frames) tagged_dumps relay ''done c1'' =
     \<lparr>pending = tools_pending relay,
      to_server =
        [JObj [(''type'', JStr ''conversation.item.create''),
               (''item'', JObj [(''type'', JStr ''function_call_output''),
                                (''call_id'', JStr ''c1''),
                                (''output'', JStr (tagged_dumps (JArr [JStr ''[doc1]: Turin''])))])]],
      to_client = [],
      outcome = Inr None\<rparr>"
    using function_call_dispatch [where loads = "table_loads frames" and data = "''done c1''"
        and message = ?message1 and item = ?item1 and call_id = "JStr ''c1''"
        and k = "JStr ''c1''" and self = relay and tool_call = ?call1 and name = "''search''"
        and tool = search_tool and arguments = "''query x''" and args = ?args
        and result = ?result1 and dumps = tagged_dumps]
    by (simp add: 1 2 3 frames_lookup to_text_def)
  have b: "process_message_to_client (table_loads frames) tagged_dumps relay ''done c2'' =
     \<lparr>pending = tools_pending relay,
      to_server =
        [JObj [(''type'', JStr ''conversation.item.create''),
               (''item'', JObj [(''type'', JStr ''function_call_output''),
                                (''call_id'', JStr ''c2''),
                                (''output'', JStr [])])]],
      to_client =
        [JObj [(''type'', JStr ''extension.middle_tier_tool_response''),
               (''previous_item_id'', JStr ''p1''),
               (''tool_name'', JStr ''notify''),
               (''tool_result'', JStr ''shown'')]],
      outcome = Inr None\<rparr>"
    using function_call_dispatch [where loads = "table_loads frames" and data = "''done c2''"
        and message = ?message2 and item = ?item2 and call_id = "JStr ''c2''"
        and k = "JStr ''c2''" and self = relay and tool_call = ?call2 and name = "''notify''"
        and tool = notify_tool and arguments = "''query x''" and args = ?args
        and result = ?result2 and dumps = tagged_dumps]
    by (simp add: 1 2 3 frames_lookup to_text_def)
  from a b show ?thesis by (rule conjI)
qed

text \<open>
  Against claim C1 as stated: a tracked call identifier and a registered tool name do not
  suffice. The arguments are parsed and the handler is awaited before anything is sent,
  so with the call \<^verbatim>\<open>c1\<close> in the tracker and the tool \<^verbatim>\<open>search\<close> in the registry, an
  item whose arguments \<^verbatim>\<open>{query\<close> do not parse sends nothing upstream and raises, and so
  does one whose arguments \<^verbatim>\<open>{}\<close> make the handler raise.
\<close>

theorem function_call_dispatch_counterexample:
  "map_of (tools_pending relay) (JStr ''c1'') =
     Some \<lparr>tool_call_id = JStr ''c1'', previous_id = JStr ''p0''\<rparr>
   \<and> map_of (tools relay) ''search'' = Some search_tool
   \<and> table_loads frames ''done c1 unparsable'' =
       Some (JObj [(''type'', JStr ''response.output_item.done''),
                   (''item'', function_call_item ''c1'' ''search'' ''{query'')])
   \<and> table_loads frames ''{query'' = None
   \<and> process_message_to_client (table_loads frames) tagged_dumps relay ''done c1 unparsable'' =
       \<lparr>pending = tools_pending relay, to_server = [], to_client = [],
        outcome = Inl JSONDecodeError\<rparr>
   \<and> to_server (process_message_to_client (table_loads frames) tagged_dumps relay
        ''done c1 without query'') = []"
proof -
  have 1: "map_of (tools_pending relay) (JStr ''c1'') =
             Some \<lparr>tool_call_id = JStr ''c1'', previous_id = JStr ''p0''\<rparr>"
    "map_of (tools relay) ''search'' = Some search_tool"
    by (simp_all add: relay_def)
  have 2: "table_loads frames ''done c1 unparsable'' =
             Some (JObj [(''type'', JStr ''response.output_item.done''),
                         (''item'', function_call_item ''c1'' ''search'' ''{query'')])"
    "table_loads frames ''{query'' = None"
    by (simp_all add: table_loads_def frames_def)
  have 3: "process_message_to_client (table_loads frames) tagged_dumps relay
             ''done c1 unparsable'' =
           \<lparr>pending = tools_pending relay, to_server = [], to_client = [],
            outcome = Inl JSONDecodeError\<rparr>"
    by (simp add: process_message_to_client_def 2 function_call_item_def
        output_item_done_def item_has_type_def call_tool_def lookup_tool_def relay_def quiet_def)
  have 4: "to_server (process_message_to_client (table_loads frames) tagged_dumps relay
             ''done c1 without query'') = []"
    by (simp add: process_message_to_client_def frames_lookup function_call_item_def
        output_item_done_def item_has_type_def call_tool_def lookup_tool_def relay_def quiet_def
        search_tool_def MAIZE_search_tool_def)
  from 1 2 3 4 show ?thesis by (intro conjI)
qed

text \<open>
  Claim C2, as the code has it. The dispatch has no exception handler: when the tool's
  handler raises, \<^verbatim>\<open>_process_message_to_client\<close> raises the same exception, having
  sent nothing upstream and nothing to the client and left the tracker as it was, and
  the upstream-to-client loop ends with that exception, the frames after it unread.
\<close>

theorem handler_fault_propagates:
  assumes "loads data = Some (JObj message)"
    and "map_of message ''type'' = Some (JStr ''response.output_item.done'')"
    and "map_of message ''item'' = Some (JObj item)"
    and "map_of item ''type'' = Some (JStr ''function_call'')"
    and "map_of item ''call_id'' = Some call_id"
    and "dict_key call_id = Inr k"
    and "map_of (tools_pending self) k = Some tool_call"
    and "map_of item ''name'' = Some (JStr name)"
    and "map_of (tools self) name = Some tool"
    and "map_of item ''arguments'' = Some (JStr arguments)"
    and "loads arguments = Some args"
    and "target tool args = Inl e"
  shows "process_message_to_client loads dumps self data =
           \<lparr>pending = tools_pending self, to_server = [], to_client = [], outcome = Inl e\<rparr>
       \<and> from_server_to_client loads dumps self (TEXT data # msgs) =
           \<lparr>tracker = tools_pending self, upstream = [], client = [], raised = Some e\<rparr>"
  using assms
  by (simp add: output_item_done_obj [where message = message and item = item]
      call_tool_obj [where call_id = call_id and k = k and tool_call = tool_call
        and name = name and tool = tool and arguments = arguments and args = args]
      quiet_def)

text \<open>
  The search handler reads \<^verbatim>\<open>args['query']\<close>; called with the arguments \<^verbatim>\<open>{}\<close> it
  raises KeyError, and so does the loop, before it reads the next frame.
\<close>

theorem handler_fault_propagates_witness:
  "target search_tool (JObj []) = Inl KeyError
   \<and> outcome (process_message_to_client (table_loads frames) tagged_dumps relay
        ''done c1 without query'') = Inl KeyError
   \<and> raised (from_server_to_client (table_loads frames) tagged_dumps relay
        [TEXT ''done c1 without query'', TEXT ''created'']) = Some KeyError"
proof -
  let ?item = "[(''type'', JStr ''function_call''), (''call_id'', JStr ''c1''),
                (''name'', JStr ''search''), (''arguments'', JStr ''empty'')]"
  let ?message = "[(''type'', JStr ''response.output_item.done''), (''item'', JObj ?item)]"
  let ?call = "\<lparr>tool_call_id = JStr ''c1'', previous_id = JStr ''p0''\<rparr>"
  have 1: "table_loads frames ''done c1 without query'' = Some (JObj ?message)"
    by (simp add: frames_lookup function_call_item_def)
  have 2: "map_of (tools_pending relay) (JStr ''c1'') = Some ?call"
    "map_of (tools relay) ''search'' = Some search_tool"
    by (simp_all add: relay_def)
  have 3: "target search_tool (JObj []) = Inl KeyError"
    by (simp add: search_tool_def MAIZE_search_tool_def)
  show ?thesis
    using handler_fault_propagates [where loads = "table_loads frames"
        and data = "''done c1 without query''"
        and message = ?message and item = ?item and call_id = "JStr ''c1''"
        and k = "JStr ''c1''" and self = relay and tool_call = ?call and name = "''search''"
        and tool = search_tool and arguments = "''empty''" and args = "JObj []"
        and e = KeyError and dumps = tagged_dumps and msgs = "[TEXT ''created'']"]
    by (simp add: 1 2 3 frames_lookup)
qed

text \<open>
  Against claim C2 as stated: the failing handler's exception is not turned into an error
  result. No \<^verbatim>\<open>function_call_output\<close> goes upstream, the exception leaves
  \<^verbatim>\<open>_process_message_to_client\<close>, and the loop ends without forwarding the
  \<^verbatim>\<open>session.created\<close> that follows.
\<close>

theorem handler_fault_counterexample:
  "target search_tool (JObj []) = Inl KeyError
   \<and> process_message_to_client (table_loads frames) tagged_dumps relay
        ''done c1 without query'' =
       \<lparr>pending = tools_pending relay, to_server = [], to_client = [], outcome = Inl KeyError\<rparr>
   \<and> from_server_to_client (table_loads frames) tagged_dumps relay
        [TEXT ''done c1 without query'', TEXT ''created''] =
       \<lparr>tracker = tools_pending relay, upstream = [], client = [], raised = Some KeyError\<rparr>"
proof -
  have 1: "target search_tool (JObj []) = Inl KeyError"
    by (simp add: search_tool_def MAIZE_search_tool_def)
  have 2: "process_message_to_client (table_loads frames) tagged_dumps relay
        ''done c1 without query'' =
       \<lparr>pending = tools_pending relay, to_server = [], to_client = [], outcome = Inl KeyError\<rparr>"
    by (simp add: process_message_to_client_def frames_lookup function_call_item_def
        output_item_done_def item_has_type_def call_tool_def lookup_tool_def relay_def quiet_def 1)
  show ?thesis
    by (simp add: 1 2)
qed

lemma strip_loop_no_calls:
  "\<forall>x\<in>set out. \<exists>t. getitem x ''type'' = Inr t \<and> t \<noteq> JStr ''function_call'' \<Longrightarrow>
     strip_loop i index out replace = Inr (out, replace)"
proof (induction i index out replace rule: strip_loop.induct)
  case (1 i index out replace)
  show ?case
  proof (cases "index < 0 \<or> int (length out) \<le> index")
    case True
    then show ?thesis by (simp add: strip_loop.simps [of i index out replace])
  next
    case False
    then have "nat index < length out" by linarith
    then have "out ! nat index \<in> set out" by (rule nth_mem)
    with "1.prems" obtain t where t: "getitem (out ! nat index) ''type'' = Inr t"
      "t \<noteq> JStr ''function_call''"
      by blast
    with False "1.IH"(2) [OF False t(1) t(2) "1.prems"] show ?thesis
      by (simp add: strip_loop.simps [of i index out replace])
  qed
qed

text \<open>
  Claim C7. A \<^verbatim>\<open>response.done\<close> whose output list holds only items with a type other
  than \<^verbatim>\<open>function_call\<close> is returned as the very string that was received: the loop
  removes nothing and the message is not serialized again.
\<close>

theorem response_done_verbatim:
  assumes "loads data = Some (JObj message)"
    and "map_of message ''type'' = Some (JStr ''response.done'')"
    and "map_of message ''response'' = Some (JObj response)"
    and "map_of response ''output'' = Some (JArr out)"
    and "\<forall>x\<in>set out. \<exists>t. getitem x ''type'' = Inr t \<and> t \<noteq> JStr ''function_call''"
  shows "outcome (process_message_to_client loads dumps self data) = Inr (Some (Text data))"
  using assms(1-4)
  by (simp add: process_message_to_client_def response_done_def strip_response_def
      strip_output_def strip_loop_no_calls [OF assms(5)])

text \<open>A \<^verbatim>\<open>response.done\<close> whose output is one assistant message.\<close>

theorem response_done_verbatim_witness:
  "table_loads frames ''response done'' =
     Some (JObj [(''type'', JStr ''response.done''),
                 (''response'', JObj [(''output'', JArr [message_item])])])
   \<and> getitem message_item ''type'' = Inr (JStr ''message'')
   \<and> outcome (process_message_to_client (table_loads frames) tagged_dumps relay ''response done'')
       = Inr (Some (Text ''response done''))"
proof -
  let ?response = "[(''output'', JArr [message_item])]"
  let ?message = "[(''type'', JStr ''response.done''), (''response'', JObj ?response)]"
  have 1: "table_loads frames ''response done'' = Some (JObj ?message)"
    by (rule frames_lookup)
  have 2: "map_of ?message ''type'' = Some (JStr ''response.done'')"
    "map_of ?message ''response'' = Some (JObj ?response)"
    "map_of ?response ''output'' = Some (JArr [message_item])"
    by simp_all
  have 3: "getitem message_item ''type'' = Inr (JStr ''message'')"
    by (simp add: message_item_def)
  then have 4: "\<forall>x\<in>set [message_item].
                  \<exists>t. getitem x ''type'' = Inr t \<and> t \<noteq> JStr ''function_call''"
    by simp
  show ?thesis
    using 1 3 response_done_verbatim [of "table_loads frames" "''response done''" ?message
        ?response "[message_item]" tagged_dumps relay, OF 1 2 4]
    by simp
qed

text \<open>
  Claim C3 fails on the code. With the output list \<^verbatim>\<open>[function_call, message]\<close> the loop
  pops position 1, the message, and forwards the function call; with
  \<^verbatim>\<open>[message, function_call]\<close> it pops position 0, the message, then meets the function
  call again and raises IndexError on \<^verbatim>\<open>pop(1)\<close>.
\<close>

theorem response_done_strip_failure:
  "outcome (process_message_to_client (table_loads frames) tagged_dumps relay
      ''response done, call first'') =
     Inr (Some (Json (JObj
       [(''type'', JStr ''response.done''),
        (''response'', JObj [(''output'',
           JArr [function_call_item ''c1'' ''search'' ''query x''])])])))
   \<and> outcome (process_message_to_client (table_loads frames) tagged_dumps relay
      ''response done, call last'') = Inl IndexError"
  by (simp add: process_message_to_client_def table_loads_def frames_def response_done_def
      strip_response_def strip_output_def strip_loop.simps pop_def function_call_item_def
      message_item_def)

lemma traffic_suppressed:
  assumes "loads data = Some v" and "function_call_traffic v"
  shows "outcome (process_message_to_client loads dumps self data) \<noteq> Inr (Some f)"
proof -
  from assms(2) obtain message where v: "v = JObj message"
    by (cases v) (simp_all add: function_call_traffic_def)
  let ?t = "map_of message ''type''" and ?it = "item_type message"
  from assms(2) v consider
      "?t = Some (JStr ''response.function_call_arguments.delta'')"
    | "?t = Some (JStr ''response.function_call_arguments.done'')"
    | "?t = Some (JStr ''response.output_item.added'')" "?it = Some (JStr ''function_call'')"
    | "?t = Some (JStr ''conversation.item.created'')" "?it = Some (JStr ''function_call'')"
    | "?t = Some (JStr ''conversation.item.created'')" "?it = Some (JStr ''function_call_output'')"
    | "?t = Some (JStr ''response.output_item.done'')" "?it = Some (JStr ''function_call'')"
    by (auto simp: function_call_traffic_def Let_def)
  then show ?thesis
  proof cases
    case 1
    with assms(1) v show ?thesis by (simp add: process_message_to_client_def quiet_def)
  next
    case 2
    with assms(1) v show ?thesis by (simp add: process_message_to_client_def quiet_def)
  next
    case 3
    from 3(2) obtain item where "map_of message ''item'' = Some (JObj item)"
      "map_of item ''type'' = Some (JStr ''function_call'')"
      by (auto simp: item_type_def split: option.splits json.splits)
    with 3(1) assms(1) v show ?thesis
      by (simp add: process_message_to_client_def quiet_def item_has_type_obj)
  next
    case 4
    from 4(2) obtain item where "map_of message ''item'' = Some (JObj item)"
      "map_of item ''type'' = Some (JStr ''function_call'')"
      by (auto simp: item_type_def split: option.splits json.splits)
    with 4(1) assms(1) v show ?thesis
      by (simp add: process_message_to_client_def quiet_def item_has_type_obj item_created_def
          split: sum.splits)
  next
    case 5
    from 5(2) obtain item where "map_of message ''item'' = Some (JObj item)"
      "map_of item ''type'' = Some (JStr ''function_call_output'')"
      by (auto simp: item_type_def split: option.splits json.splits)
    with 5(1) assms(1) v show ?thesis
      by (simp add: process_message_to_client_def quiet_def item_has_type_obj item_created_def)
  next
    case 6
    from 6(2) obtain item where "map_of message ''item'' = Some (JObj item)"
      "map_of item ''type'' = Some (JStr ''function_call'')"
      by (auto simp: item_type_def split: option.splits json.splits)
    with 6(1) assms(1) v show ?thesis
      by (simp add: process_message_to_client_def quiet_def item_has_type_obj
          output_item_done_def split: sum.splits prod.splits)
  qed
qed


lemma bind_err_Inr: "(bind_err x f = Inr y) = (\<exists>v. x = Inr v \<and> f v = Inr y)"
  by (cases x) simp_all

lemma not_traffic_by_type:
  "map_of message ''type'' = Some (JStr t) \<Longrightarrow>
   t \<notin> {''response.function_call_arguments.delta'', ''response.function_call_arguments.done'',
          ''response.output_item.added'', ''conversation.item.created'',
          ''response.output_item.done''} \<Longrightarrow>
   \<not> function_call_traffic (JObj message)"
  by (simp add: function_call_traffic_def Let_def)

lemma session_created_frame:
  "session_created self message = Inr (Some f) \<Longrightarrow>
     \<exists>m. f = Json (JObj m) \<and> map_of m ''type'' = map_of message ''type''"
  by (auto simp: session_created_def bind_err_Inr update_conv')

lemma strip_response_frame:
  "strip_response message u = Inr (Some f) \<Longrightarrow>
     f = u \<or> (\<exists>m. f = Json (JObj m) \<and> map_of m ''type'' = map_of message ''type'')"
  by (auto simp: strip_response_def bind_err_Inr update_conv' split: option.splits if_splits)

lemma item_created_frame:
  "outcome (item_created self message u) = Inr (Some f) \<Longrightarrow> f = u"
  by (auto simp: item_created_def quiet_def split: sum.splits bool.splits)

lemma output_item_done_frame:
  "outcome (output_item_done loads dumps self message u) = Inr (Some f) \<Longrightarrow> f = u"
  by (auto simp: output_item_done_def quiet_def split: sum.splits bool.splits prod.splits)

lemma returned_frame:
  assumes "outcome (process_message_to_client loads dumps self data) = Inr (Some f)"
  shows "f = Text data
       \<or> (\<exists>m. f = Json (JObj m)
            \<and> (map_of m ''type'' = Some (JStr ''session.created'')
               \<or> map_of m ''type'' = Some (JStr ''response.done'')))"
proof (cases "loads data")
  case None
  with assms show ?thesis by (simp add: process_message_to_client_def quiet_def)
next
  case (Some parsed)
  show ?thesis
  proof (cases parsed)
    case (JObj message)
    show ?thesis
    proof (cases "map_of message ''type''")
      case None
      with assms Some JObj show ?thesis by (simp add: process_message_to_client_def quiet_def)
    next
      case t: (Some t)
      consider "t = JStr ''session.created''" | "t = JStr ''response.output_item.added''"
        | "t = JStr ''conversation.item.created''"
        | "t = JStr ''response.function_call_arguments.delta''"
        | "t = JStr ''response.function_call_arguments.done''"
        | "t = JStr ''response.output_item.done''" | "t = JStr ''response.done''"
        | "t \<noteq> JStr ''session.created''" "t \<noteq> JStr ''response.output_item.added''"
          "t \<noteq> JStr ''conversation.item.created''"
          "t \<noteq> JStr ''response.function_call_arguments.delta''"
          "t \<noteq> JStr ''response.function_call_arguments.done''"
          "t \<noteq> JStr ''response.output_item.done''" "t \<noteq> JStr ''response.done''"
        by blast
      then show ?thesis
      proof cases
        case 1
        with assms Some JObj t show ?thesis
          using session_created_frame [of self message f]
          by (auto simp: process_message_to_client_def quiet_def)
      next
        case 2
        with assms Some JObj t show ?thesis
          by (auto simp: process_message_to_client_def quiet_def split: sum.splits bool.splits)
      next
        case 3
        with assms Some JObj t show ?thesis
          using item_created_frame [of self message "Text data" f]
          by (simp add: process_message_to_client_def)
      next
        case 4
        with assms Some JObj t show ?thesis by (simp add: process_message_to_client_def quiet_def)
      next
        case 5
        with assms Some JObj t show ?thesis by (simp add: process_message_to_client_def quiet_def)
      next
        case 6
        with assms Some JObj t show ?thesis
          using output_item_done_frame [of loads dumps self message "Text data" f]
          by (simp add: process_message_to_client_def)
      next
        case 7
        with assms Some JObj t show ?thesis
          using strip_response_frame [of message "Text data" f]
          by (auto simp: process_message_to_client_def response_done_def)
      next
        case 8
        with assms Some JObj t show ?thesis by (simp add: process_message_to_client_def quiet_def)
      qed
    qed
  qed (use assms Some in \<open>simp_all add: process_message_to_client_def quiet_def\<close>)
qed


lemma to_client_frame:
  assumes "j \<in> set (to_client (process_message_to_client loads dumps self data))"
  shows "\<exists>tool_call name result. j = tool_response dumps tool_call name result"
proof -
  have quiet: "to_client (quiet self r) = []" for r by (simp add: quiet_def)
  have a: "to_client (item_created self message u) = []" for message u
    by (simp add: item_created_def quiet_def split: sum.splits bool.splits)
  have b: "j \<in> set (to_client (output_item_done loads dumps self message u)) \<Longrightarrow>
             \<exists>tool_call name result. j = tool_response dumps tool_call name result"
    for message u
    by (auto simp: output_item_done_def quiet_def split: sum.splits bool.splits prod.splits
        if_splits)
  have c: "to_client (response_done self message u) = []" for message u
    by (simp add: response_done_def)
  from assms show ?thesis
    by (auto simp: process_message_to_client_def quiet a c
        split: option.splits json.splits if_splits sum.splits bool.splits dest: b)
qed

lemma tool_response_not_traffic: "\<not> function_call_traffic (tool_response dumps tc name result)"
  by (simp add: tool_response_def function_call_traffic_def Let_def)

lemma step_clean:
  fixes loads dumps self data
  defines "r \<equiv> process_message_to_client loads dumps self data"
  assumes "f \<in> set (map Json (to_client r) @ (case outcome r of Inr (Some f) \<Rightarrow> [f] | _ \<Rightarrow> []))"
    and "frame_value loads f = Some v"
  shows "\<not> function_call_traffic v"
proof -
  from assms(2) consider j where "j \<in> set (to_client r)" "f = Json j"
    | "outcome r = Inr (Some f)"
    by (auto split: sum.splits option.splits)
  then show ?thesis
  proof cases
    case 1
    with assms(3) to_client_frame [of j loads dumps self data] show ?thesis
      by (auto simp: r_def tool_response_not_traffic)
  next
    case 2
    then have o: "outcome (process_message_to_client loads dumps self data) = Inr (Some f)"
      by (simp add: r_def)
    from returned_frame [OF o] show ?thesis
    proof
      assume "f = Text data"
      with assms(3) have "loads data = Some v" by simp
      with o traffic_suppressed [of loads data v dumps self f] show ?thesis by blast
    next
      assume "\<exists>m. f = Json (JObj m)
            \<and> (map_of m ''type'' = Some (JStr ''session.created'')
               \<or> map_of m ''type'' = Some (JStr ''response.done''))"
      then obtain m where m: "f = Json (JObj m)"
        "map_of m ''type'' = Some (JStr ''session.created'')
         \<or> map_of m ''type'' = Some (JStr ''response.done'')"
        by blast
      from m(2) have "\<not> function_call_traffic (JObj m)"
        by (auto dest: not_traffic_by_type)
      with m(1) assms(3) show ?thesis by simp
    qed
  qed
qed

text \<open>
  Claim C8. The inbound transformer returns no message for the client when the message
  it is given is function-call traffic: an \<^verbatim>\<open>output_item.added\<close>,
  \<^verbatim>\<open>conversation.item.created\<close> or \<^verbatim>\<open>output_item.done\<close> whose item is a function
  call, a \<^verbatim>\<open>conversation.item.created\<close> whose item is a function call output, or a
  function-call-arguments delta or done; it returns \<^verbatim>\<open>None\<close> or raises. And over every
  sequence of upstream frames, from any tracker, no frame the client socket is sent
  (forwarded, rewritten or the extension message) carries such a message.
\<close>

theorem function_call_traffic_hidden:
  "(\<forall>v. loads data = Some v \<and> function_call_traffic v \<longrightarrow>
        (\<forall>f. outcome (process_message_to_client loads dumps self data) \<noteq> Inr (Some f)))
   \<and> (\<forall>f\<in>set (client (from_server_to_client loads dumps self msgs)).
        \<forall>v. frame_value loads f = Some v \<longrightarrow> \<not> function_call_traffic v)"
proof
  show "\<forall>v. loads data = Some v \<and> function_call_traffic v \<longrightarrow>
        (\<forall>f. outcome (process_message_to_client loads dumps self data) \<noteq> Inr (Some f))"
    using traffic_suppressed [of loads data _ dumps self] by blast
  show "\<forall>f\<in>set (client (from_server_to_client loads dumps self msgs)).
        \<forall>v. frame_value loads f = Some v \<longrightarrow> \<not> function_call_traffic v"
  proof (induction loads dumps self msgs rule: from_server_to_client.induct)
    case (1 loads dumps self)
    show ?case by simp
  next
    case (2 loads dumps self msgs)
    then show ?case by simp
  next
    case (3 loads dumps self data msgs)
    let ?r = "process_message_to_client loads dumps self data"
    show ?case
    proof (cases "outcome ?r")
      case (Inl e)
      then show ?thesis
        using step_clean [of _ loads dumps self data]
        by (auto simp: Let_def)
    next
      case (Inr new_msg)
      have rest: "\<forall>f\<in>set (client (from_server_to_client loads dumps
                    (self\<lparr>tools_pending := pending ?r\<rparr>) msgs)).
                  \<forall>v. frame_value loads f = Some v \<longrightarrow> \<not> function_call_traffic v"
        using "3.IH" [OF refl refl refl Inr] .
      show ?thesis
      proof (intro ballI allI impI)
        fix f v
        assume f: "f \<in> set (client (from_server_to_client loads dumps self (TEXT data # msgs)))"
          and v: "frame_value loads f = Some v"
        from f Inr consider
            "f \<in> set (map Json (to_client ?r)
                        @ (case outcome ?r of Inr (Some f) \<Rightarrow> [f] | _ \<Rightarrow> []))"
          | "f \<in> set (client (from_server_to_client loads dumps
                    (self\<lparr>tools_pending := pending ?r\<rparr>) msgs))"
          by (auto simp: Let_def split: option.splits)
        then show "\<not> function_call_traffic v"
        proof cases
          case 1
          from 1 v show ?thesis by (rule step_clean)
        next
          case 2
          with rest v show ?thesis by blast
        qed
      qed
    qed
  qed
qed


text \<open>
  An arguments delta is suppressed; of the frames delta, output-item-done for \<^verbatim>\<open>c2\<close>,
  item-created for \<^verbatim>\<open>c1\<close> and response-done, the client gets the extension message and
  the response-done only.
\<close>

theorem function_call_traffic_hidden_witness:
  "table_loads frames ''delta'' =
     Some (JObj [(''type'', JStr ''response.function_call_arguments.delta''),
                 (''delta'', JStr ''{'')])
   \<and> function_call_traffic (JObj [(''type'', JStr ''response.function_call_arguments.delta''),
                                   (''delta'', JStr ''{'')])
   \<and> outcome (process_message_to_client (table_loads frames) tagged_dumps relay ''delta'')
       \<noteq> Inr (Some (Text ''delta''))
   \<and> client (from_server_to_client (table_loads frames) tagged_dumps relay
        [TEXT ''delta'', TEXT ''done c2'', TEXT ''item c1'', TEXT ''response done'']) =
       [Json (JObj [(''type'', JStr ''extension.middle_tier_tool_response''),
                    (''previous_item_id'', JStr ''p1''),
                    (''tool_name'', JStr ''notify''),
                    (''tool_result'', JStr ''shown'')]),
        Text ''response done'']
   \<and> \<not> function_call_traffic
         (JObj [(''type'', JStr ''extension.middle_tier_tool_response''),
                (''previous_item_id'', JStr ''p1''),
                (''tool_name'', JStr ''notify''),
                (''tool_result'', JStr ''shown'')])"
proof -
  let ?delta = "JObj [(''type'', JStr ''response.function_call_arguments.delta''),
                      (''delta'', JStr ''{'')]"
  let ?shown = "JObj [(''type'', JStr ''extension.middle_tier_tool_response''),
                      (''previous_item_id'', JStr ''p1''),
                      (''tool_name'', JStr ''notify''),
                      (''tool_result'', JStr ''shown'')]"
  let ?msgs = "[TEXT ''delta'', TEXT ''done c2'', TEXT ''item c1'', TEXT ''response done'']"
  note hidden = function_call_traffic_hidden [of "table_loads frames" "''delta''" tagged_dumps
      relay ?msgs]
  have 1: "table_loads frames ''delta'' = Some ?delta"
    by (simp add: table_loads_def frames_def)
  have 2: "function_call_traffic ?delta"
    by (simp add: function_call_traffic_def Let_def)
  have 3: "client (from_server_to_client (table_loads frames) tagged_dumps relay ?msgs) =
             [Json ?shown, Text ''response done'']"
    by (simp add: process_message_to_client_def table_loads_def frames_def
        function_call_item_def message_item_def relay_def notify_tool_def quiet_def Let_def
        item_has_type_def item_created_def output_item_done_def call_tool_def lookup_tool_def
        function_call_output_def tool_response_def to_text_def
        response_done_def strip_response_def strip_output_def strip_loop.simps)
  from hidden 1 2
  have 4: "outcome (process_message_to_client (table_loads frames) tagged_dumps relay ''delta'')
             \<noteq> Inr (Some (Text ''delta''))"
    by blast
  from hidden have "\<forall>f\<in>set [Json ?shown, Text ''response done''].
      \<forall>v. frame_value (table_loads frames) f = Some v \<longrightarrow> \<not> function_call_traffic v"
    unfolding 3 by (rule conjunct2)
  then have 5: "\<not> function_call_traffic ?shown" by simp
  from 1 2 3 4 5 show ?thesis by (intro conjI)
qed

end
